theory Spec2Isabelle
  imports Main
begin

section \<open>The sequential tool-calling loop of \<^verbatim>\<open>backend/ai_generator.py\<close>\<close>

text \<open>
  The class \<^verbatim>\<open>AIGenerator\<close> talks to two collaborators: the model provider
  (\<^verbatim>\<open>self.client.messages.create\<close>) and the tool manager
  (\<^verbatim>\<open>tool_manager.execute_tool\<close>). Both are parameters of the model below. Every
  call to either of them is appended to a log of events, which is the state that is
  passed through the functions; both collaborators may answer differently depending on
  what has happened before, so they read the log. Exceptions are values.
\<close>

subsection \<open>Data\<close>

text \<open>
  An exception with what \<^verbatim>\<open>str(e)\<close> gives for it. \<open>Raised m\<close> is any exception
  raised by a collaborator with message \<open>m\<close>; the other two are the ones that
  \<^verbatim>\<open>response.content[0].text\<close> can raise: on an empty list, and on a first block
  that has no \<^verbatim>\<open>text\<close> attribute.
\<close>

datatype exn = IndexError | AttributeError | Raised string

fun str_exn :: "exn \<Rightarrow> string" where
  "str_exn IndexError = ''list index out of range''"
| "str_exn AttributeError =
     [CHR 0x27] @ ''ToolUseBlock'' @ [CHR 0x27] @ '' object has no attribute '' @
     [CHR 0x27] @ ''text'' @ [CHR 0x27]"
| "str_exn (Raised m) = m"

datatype json = JNull | JBool bool | JInt int | JStr string

type_synonym kwargs = "(string \<times> json) list"

text \<open>
  A content block of a response. Its \<^verbatim>\<open>type\<close> attribute is the constructor:
  \<^verbatim>\<open>content_block.type == "tool_use"\<close> holds of a \<open>ToolUseBlock\<close> only, and only a
  \<open>TextBlock\<close> has a \<^verbatim>\<open>text\<close> attribute.
\<close>

datatype content_block =
    TextBlock string
  | ToolUseBlock string string kwargs  \<comment> \<open>name, id, input\<close>

record response =
  stop_reason :: string
  content :: "content_block list"

text \<open>A Python dict with string values, in insertion order.\<close>

type_synonym dict = "(string \<times> string) list"

type_synonym tool_schema = dict

datatype message_content =
    Str string
  | Blocks "content_block list"
  | ToolResults "dict list"

record message =
  role :: string
  m_content :: message_content

text \<open>
  The keyword arguments of \<^verbatim>\<open>messages.create\<close>; \<open>None\<close> is a key that is not
  passed.
\<close>

record api_params =
  p_model :: string
  p_temperature :: int
  p_max_tokens :: int
  p_messages :: "message list"
  p_system :: string
  p_tools :: "tool_schema list option"
  p_tool_choice :: "dict option"

text \<open>
  The log: a model call with its parameters and what came back, or the dispatch of one
  tool-use block (its id, the tool's name, the input) and what came back.
\<close>

datatype event =
    ModelCall api_params "exn + response"
  | ToolCall string string kwargs "exn + string"

type_synonym trace = "event list"

type_synonym tool_manager = "trace \<Rightarrow> string \<Rightarrow> kwargs \<Rightarrow> exn + string"

record ai_generator =
  client :: "trace \<Rightarrow> api_params \<Rightarrow> exn + response"
  model :: string

subsection \<open>The system prompt\<close>

definition SYSTEM_PROMPT :: string where
  \<open>SYSTEM_PROMPT =
   '' You are an AI assistant specialized in course materials and educational content with access to comprehensive search and outline tools for course information.\<newline>'' @
   ''\<newline>'' @
   ''Tool Usage:\<newline>'' @
   ''- **search_course_content**: Use for questions about specific course content or detailed educational materials\<newline>'' @
   ''- **get_course_outline**: Use for questions about course structure, lesson lists, or course overviews\<newline>'' @
   ''- **Sequential tool calls allowed**: You may make up to 2 tool calls across separate reasoning rounds if needed\<newline>'' @
   ''- **Tool call strategy**: After receiving tool results, consider if additional searches would improve your answer\<newline>'' @
   ''- Synthesize tool results into accurate, fact-based responses\<newline>'' @
   ''- If tools yield no results, state this clearly without offering alternatives\<newline>'' @
   ''\<newline>'' @
   ''For Course Outline Queries:\<newline>'' @
   ''- When users ask about course structure, lesson lists, or "what's covered" in a course, use get_course_outline\<newline>'' @
   ''- Always include the course title, course link (if available), and complete lesson list in your response\<newline>'' @
   ''- Format lesson information as: "Lesson [number]: [title]"\<newline>'' @
   ''- Include the total number of lessons\<newline>'' @
   ''\<newline>'' @
   ''Response Protocol:\<newline>'' @
   ''- **General knowledge questions**: Answer using existing knowledge without using tools\<newline>'' @
   ''- **Course content questions**: Use search_course_content tool first, then answer\<newline>'' @
   ''- **Course outline questions**: Use get_course_outline tool first, then answer\<newline>'' @
   ''- **No meta-commentary**:\<newline>'' @
   '' - Provide direct answers only '' @ [CHR 0xC3, CHR 0xA2, CHR 0xE2, CHR 0x82, CHR 0xAC, CHR 0xE2, CHR 0x80, CHR 0x9D] @ '' no reasoning process, tool explanations, or question-type analysis\<newline>'' @
   '' - Do not mention "based on the tool results"\<newline>'' @
   ''\<newline>'' @
   ''All responses must be:\<newline>'' @
   ''1. **Brief, Concise and focused** - Get to the point quickly\<newline>'' @
   ''2. **Educational** - Maintain instructional value\<newline>'' @
   ''3. **Clear** - Use accessible language\<newline>'' @
   ''4. **Example-supported** - Include relevant examples when they aid understanding\<newline>'' @
   ''Provide only the direct answer to what was asked.\<newline>''\<close>

text \<open>
  \<^verbatim>\<open>system_content\<close> of \<^verbatim>\<open>generate_response\<close>: a history that is
  \<^verbatim>\<open>None\<close> or empty is falsy.
\<close>

definition system_content_of :: "string option \<Rightarrow> string" where
  "system_content_of conversation_history =
     (case conversation_history of
        None \<Rightarrow> SYSTEM_PROMPT
      | Some h \<Rightarrow>
          if h \<noteq> [] then SYSTEM_PROMPT @ ''\<newline>\<newline>Previous conversation:\<newline>'' @ h
          else SYSTEM_PROMPT)"

subsection \<open>Model calls\<close>

definition api_params_with_tools ::
  "ai_generator \<Rightarrow> message list \<Rightarrow> string \<Rightarrow> tool_schema list \<Rightarrow> api_params" where
  "api_params_with_tools self messages system_content tools =
     \<lparr>p_model = model self, p_temperature = 0, p_max_tokens = 800,
      p_messages = messages, p_system = system_content,
      p_tools = Some tools, p_tool_choice = Some [(''type'', ''auto'')]\<rparr>"

definition api_params_no_tools :: "ai_generator \<Rightarrow> message list \<Rightarrow> string \<Rightarrow> api_params" where
  "api_params_no_tools self messages system_content =
     \<lparr>p_model = model self, p_temperature = 0, p_max_tokens = 800,
      p_messages = messages, p_system = system_content,
      p_tools = None, p_tool_choice = None\<rparr>"

definition messages_create :: "ai_generator \<Rightarrow> api_params \<Rightarrow> trace \<Rightarrow> (exn + response) \<times> trace" where
  "messages_create self params tr = (let r = client self tr params in (r, tr @ [ModelCall params r]))"

text \<open>\<^verbatim>\<open>content[0].text\<close>\<close>

fun first_text :: "content_block list \<Rightarrow> exn + string" where
  "first_text [] = Inl IndexError"
| "first_text (TextBlock t # bs) = Inr t"
| "first_text (ToolUseBlock n i inp # bs) = Inl AttributeError"

definition response_text :: "exn + response \<Rightarrow> exn + string" where
  "response_text r = (case r of Inl e \<Rightarrow> Inl e | Inr resp \<Rightarrow> first_text (content resp))"

text \<open>\<^verbatim>\<open>except Exception as e: return f"<prefix>{str(e)}"\<close>\<close>

definition or_error :: "string \<Rightarrow> exn + string \<Rightarrow> string" where
  "or_error prefix r = (case r of Inl e \<Rightarrow> prefix @ str_exn e | Inr t \<Rightarrow> t)"

subsection \<open>Tool execution\<close>

definition tool_result :: "string \<Rightarrow> exn + string \<Rightarrow> dict" where
  "tool_result block_id r =
     [(''type'', ''tool_result''), (''tool_use_id'', block_id),
      (''content'', (case r of Inr out \<Rightarrow> out | Inl e \<Rightarrow> ''Tool execution failed: '' @ str_exn e))]"

text \<open>
  The \<^verbatim>\<open>for content_block in response.content\<close> loop of
  \<^verbatim>\<open>_handle_tool_execution_sequential\<close>, on
  \<^verbatim>\<open>(tool_results, execution_success)\<close> and the log.
\<close>

fun dispatch_blocks ::
  "tool_manager \<Rightarrow> content_block list \<Rightarrow> dict list \<times> bool \<times> trace \<Rightarrow> dict list \<times> bool \<times> trace" where
  "dispatch_blocks tm [] acc = acc"
| "dispatch_blocks tm (TextBlock t # bs) acc = dispatch_blocks tm bs acc"
| "dispatch_blocks tm (ToolUseBlock n i inp # bs) (tool_results, execution_success, tr) =
     (case tm tr n inp of
        Inr out \<Rightarrow>
          dispatch_blocks tm bs
            (tool_results @ [tool_result i (Inr out)], execution_success,
             tr @ [ToolCall i n inp (Inr out)])
      | Inl e \<Rightarrow>
          dispatch_blocks tm bs
            (tool_results @ [tool_result i (Inl e)], False,
             tr @ [ToolCall i n inp (Inl e)]))"

definition handle_tool_execution_sequential ::
  "tool_manager \<Rightarrow> response \<Rightarrow> message list \<Rightarrow> trace \<Rightarrow> (message list \<times> bool) \<times> trace" where
  "handle_tool_execution_sequential tm resp messages tr =
     (let messages1 = messages @ [\<lparr>role = ''assistant'', m_content = Blocks (content resp)\<rparr>]
      in case dispatch_blocks tm (content resp) ([], True, tr) of
           (tool_results, execution_success, tr') \<Rightarrow>
             ((if tool_results \<noteq> []
               then messages1 @ [\<lparr>role = ''user'', m_content = ToolResults tool_results\<rparr>]
               else messages1,
               execution_success), tr'))"

subsection \<open>The round loop\<close>

record loop_state =
  round_count :: int
  chain :: "message list"
  log :: trace

datatype round_outcome = Return string loop_state | Continue loop_state

text \<open>One pass through the body of \<^verbatim>\<open>while round_count < max_rounds\<close>.\<close>

definition round_body ::
  "ai_generator \<Rightarrow> tool_manager \<Rightarrow> string \<Rightarrow> tool_schema list \<Rightarrow> loop_state \<Rightarrow> round_outcome" where
  "round_body self tm system_content tools st =
     (case messages_create self (api_params_with_tools self (chain st) system_content tools) (log st) of
        (Inl e, tr1) \<Rightarrow>
          Return (''Error generating response: '' @ str_exn e) (st\<lparr>log := tr1\<rparr>)
      | (Inr resp, tr1) \<Rightarrow>
          if stop_reason resp \<noteq> ''tool_use'' then
            Return (or_error ''Error generating response: '' (first_text (content resp)))
              \<lparr>round_count = round_count st + 1, chain = chain st, log = tr1\<rparr>
          else
            (case handle_tool_execution_sequential tm resp (chain st) tr1 of
               ((messages, tool_success), tr2) \<Rightarrow>
                 if \<not> tool_success then
                   (case messages_create self (api_params_no_tools self messages system_content) tr2 of
                      (final_response, tr3) \<Rightarrow>
                        Return (or_error ''Error generating response: '' (response_text final_response))
                          \<lparr>round_count = round_count st + 1, chain = messages, log = tr3\<rparr>)
                 else Continue \<lparr>round_count = round_count st + 1, chain = messages, log = tr2\<rparr>))"

text \<open>The code after the loop: the final call without tools.\<close>

definition final_call :: "ai_generator \<Rightarrow> string \<Rightarrow> loop_state \<Rightarrow> string \<times> loop_state" where
  "final_call self system_content st =
     (case messages_create self (api_params_no_tools self (chain st) system_content) (log st) of
        (final_response, tr) \<Rightarrow>
          (or_error ''Error generating final response: '' (response_text final_response),
           st\<lparr>log := tr\<rparr>))"

function while_rounds ::
  "ai_generator \<Rightarrow> tool_manager \<Rightarrow> string \<Rightarrow> tool_schema list \<Rightarrow> int \<Rightarrow> loop_state \<Rightarrow> string \<times> loop_state" where
  "while_rounds self tm system_content tools max_rounds st =
     (if round_count st < max_rounds then
        (case round_body self tm system_content tools st of
           Return answer st' \<Rightarrow> (answer, st')
         | Continue st' \<Rightarrow> while_rounds self tm system_content tools max_rounds st')
      else final_call self system_content st)"
  by pat_completeness auto
termination
  by (relation "measure (\<lambda>(self, tm, system_content, tools, max_rounds, st). nat (max_rounds - round_count st))")
     (auto simp: round_body_def split: prod.splits sum.splits if_splits)

definition execute_sequential_rounds ::
  "ai_generator \<Rightarrow> message list \<Rightarrow> string \<Rightarrow> tool_schema list \<Rightarrow> tool_manager \<Rightarrow> int \<Rightarrow> string \<times> loop_state" where
  "execute_sequential_rounds self messages system_content tools tm max_rounds =
     while_rounds self tm system_content tools max_rounds \<lparr>round_count = 0, chain = messages, log = []\<rparr>"

subsection \<open>The entry point\<close>

definition generate_response ::
  "ai_generator \<Rightarrow> string \<Rightarrow> string option \<Rightarrow> tool_schema list option \<Rightarrow> tool_manager option \<Rightarrow> int
     \<Rightarrow> (exn + string) \<times> trace" where
  "generate_response self query conversation_history tools tool_manager max_rounds =
     (let system_content = system_content_of conversation_history;
          messages = [\<lparr>role = ''user'', m_content = Str query\<rparr>];
          single_call =
            (case messages_create self (api_params_no_tools self messages system_content) [] of
               (r, tr) \<Rightarrow> (response_text r, tr))
      in case tools of
           None \<Rightarrow> single_call
         | Some ts \<Rightarrow>
             (case tool_manager of
                None \<Rightarrow> single_call
              | Some tm \<Rightarrow>
                  if ts \<noteq> [] then
                    (case execute_sequential_rounds self messages system_content ts tm max_rounds of
                       (answer, st) \<Rightarrow> (Inr answer, log st))
                  else single_call))"

subsection \<open>Reading the log\<close>

text \<open>
  What the properties say about events: whether an event is a model call, whether the call
  was made with \<^verbatim>\<open>tools\<close>, whether its response has \<^verbatim>\<open>stop_reason\<close>
  \<^verbatim>\<open>tool_use\<close>, and whether a dispatch raised.
\<close>

fun is_model_call :: "event \<Rightarrow> bool" where
  "is_model_call (ModelCall p r) = True"
| "is_model_call (ToolCall i n inp r) = False"

fun tool_enabled :: "event \<Rightarrow> bool" where
  "tool_enabled (ModelCall p r) = (p_tools p \<noteq> None)"
| "tool_enabled (ToolCall i n inp r) = False"

fun requests_tool_use :: "event \<Rightarrow> bool" where
  "requests_tool_use (ModelCall p r) = (case r of Inl e \<Rightarrow> False | Inr resp \<Rightarrow> stop_reason resp = ''tool_use'')"
| "requests_tool_use (ToolCall i n inp r) = False"

fun dispatch_failed :: "event \<Rightarrow> bool" where
  "dispatch_failed (ModelCall p r) = False"
| "dispatch_failed (ToolCall i n inp r) = (case r of Inl e \<Rightarrow> True | Inr out \<Rightarrow> False)"

text \<open>
  The tool result that the loop builds for a dispatch, the events that the loop over the
  content blocks appends to the log, the ids of the tool-use blocks of a response in order,
  and the chain after the tool execution of a round.
\<close>

fun result_of_event :: "event \<Rightarrow> dict" where
  "result_of_event (ToolCall i n inp r) = tool_result i r"
| "result_of_event (ModelCall p r) = []"

fun dispatch_events :: "tool_manager \<Rightarrow> content_block list \<Rightarrow> trace \<Rightarrow> event list" where
  "dispatch_events tm [] tr = []"
| "dispatch_events tm (TextBlock t # bs) tr = dispatch_events tm bs tr"
| "dispatch_events tm (ToolUseBlock n i inp # bs) tr =
     ToolCall i n inp (tm tr n inp) # dispatch_events tm bs (tr @ [ToolCall i n inp (tm tr n inp)])"

fun tool_use_ids :: "content_block list \<Rightarrow> string list" where
  "tool_use_ids [] = []"
| "tool_use_ids (TextBlock t # bs) = tool_use_ids bs"
| "tool_use_ids (ToolUseBlock n i inp # bs) = i # tool_use_ids bs"

definition round_messages :: "message list \<Rightarrow> response \<Rightarrow> event list \<Rightarrow> message list" where
  "round_messages messages resp evs =
     messages @ [\<lparr>role = ''assistant'', m_content = Blocks (content resp)\<rparr>] @
       (if evs = [] then [] else [\<lparr>role = ''user'', m_content = ToolResults (map result_of_event evs)\<rparr>])"

subsection \<open>Example collaborators\<close>

definition demo_tools :: "tool_schema list" where
  "demo_tools = [[(''name'', ''search_course_content'')]]"

definition demo_tool_use :: response where
  "demo_tool_use =
     \<lparr>stop_reason = ''tool_use'',
      content = [TextBlock ''Let me search.'',
                 ToolUseBlock ''search_course_content'' ''toolu_1'' [(''query'', JStr ''RAG'')]]\<rparr>"

definition demo_answer :: response where
  "demo_answer = \<lparr>stop_reason = ''end_turn'', content = [TextBlock ''An answer.'']\<rparr>"

definition demo_generator :: ai_generator where
  "demo_generator =
     \<lparr>client = (\<lambda>tr params. if p_tools params = None then Inr demo_answer else Inr demo_tool_use),
      model = ''claude''\<rparr>"

definition direct_generator :: ai_generator where
  "direct_generator = \<lparr>client = (\<lambda>tr params. Inr demo_answer), model = ''claude''\<rparr>"

definition failing_generator :: ai_generator where
  "failing_generator = \<lparr>client = (\<lambda>tr params. Inl (Raised ''connection refused'')), model = ''claude''\<rparr>"

definition demo_tool_manager :: tool_manager where
  "demo_tool_manager = (\<lambda>tr name inp. Inr ''[Course A - Lesson 1] text'')"

definition failing_tool_manager :: tool_manager where
  "failing_tool_manager = (\<lambda>tr name inp. Inl (Raised ''backend unreachable''))"

definition user_message :: "string \<Rightarrow> message" where
  "user_message query = \<lparr>role = ''user'', m_content = Str query\<rparr>"

section \<open>Properties\<close>

subsection \<open>Tool dispatch and one round\<close>

lemma dispatch_blocks_events:
  "dispatch_blocks tm bs (rs, ok, tr) =
     (rs @ map result_of_event (dispatch_events tm bs tr),
      ok \<and> \<not> list_ex dispatch_failed (dispatch_events tm bs tr),
      tr @ dispatch_events tm bs tr)"
proof (induction bs arbitrary: rs ok tr)
  case Nil
  show ?case by simp
next
  case (Cons b bs)
  show ?case
  proof (cases b)
    case (TextBlock t)
    then show ?thesis using Cons.IH by simp
  next
    case (ToolUseBlock n i inp)
    then show ?thesis using Cons.IH by (cases "tm tr n inp") simp_all
  qed
qed

lemma dispatch_events_no_model_call: "\<not> list_ex is_model_call (dispatch_events tm bs tr)"
  by (induction tm bs tr rule: dispatch_events.induct) simp_all

lemma handle_tool_execution_sequential_events:
  "handle_tool_execution_sequential tm resp messages tr =
     (let evs = dispatch_events tm (content resp) tr in
      ((messages @ [\<lparr>role = ''assistant'', m_content = Blocks (content resp)\<rparr>] @
        (if evs = [] then [] else [\<lparr>role = ''user'', m_content = ToolResults (map result_of_event evs)\<rparr>]),
        \<not> list_ex dispatch_failed evs), tr @ evs))"
  by (simp add: handle_tool_execution_sequential_def dispatch_blocks_events Let_def)

lemma round_body_cases [case_names raised answered tool_failed continue]:
  fixes self tm sys tools st
  defines "p1 \<equiv> api_params_with_tools self (chain st) sys tools"
  defines "r1 \<equiv> client self (log st) p1"
  defines "tr1 \<equiv> log st @ [ModelCall p1 r1]"
  obtains
    (raised) e where "r1 = Inl e"
      "round_body self tm sys tools st = Return (''Error generating response: '' @ str_exn e) (st\<lparr>log := tr1\<rparr>)"
  | (answered) resp where "r1 = Inr resp" "stop_reason resp \<noteq> ''tool_use''"
      "round_body self tm sys tools st =
         Return (or_error ''Error generating response: '' (first_text (content resp)))
           \<lparr>round_count = round_count st + 1, chain = chain st, log = tr1\<rparr>"
  | (tool_failed) resp evs ms p2 r2 where "r1 = Inr resp" "stop_reason resp = ''tool_use''"
      "evs = dispatch_events tm (content resp) tr1" "list_ex dispatch_failed evs"
      "ms = round_messages (chain st) resp evs"
      "p2 = api_params_no_tools self ms sys" "r2 = client self (tr1 @ evs) p2"
      "round_body self tm sys tools st =
         Return (or_error ''Error generating response: '' (response_text r2))
           \<lparr>round_count = round_count st + 1, chain = ms, log = tr1 @ evs @ [ModelCall p2 r2]\<rparr>"
  | (continue) resp evs ms where "r1 = Inr resp" "stop_reason resp = ''tool_use''"
      "evs = dispatch_events tm (content resp) tr1" "\<not> list_ex dispatch_failed evs"
      "ms = round_messages (chain st) resp evs"
      "round_body self tm sys tools st =
         Continue \<lparr>round_count = round_count st + 1, chain = ms, log = tr1 @ evs\<rparr>"
proof (cases r1)
  case (Inl e)
  then have "round_body self tm sys tools st = Return (''Error generating response: '' @ str_exn e) (st\<lparr>log := tr1\<rparr>)"
    by (simp add: round_body_def messages_create_def Let_def p1_def r1_def tr1_def)
  with Inl show ?thesis by (rule raised)
next
  case (Inr resp)
  show ?thesis
  proof (cases "stop_reason resp = ''tool_use''")
    case False
    with Inr have "round_body self tm sys tools st =
         Return (or_error ''Error generating response: '' (first_text (content resp)))
           \<lparr>round_count = round_count st + 1, chain = chain st, log = tr1\<rparr>"
      by (simp add: round_body_def messages_create_def Let_def p1_def r1_def tr1_def)
    with Inr False show ?thesis by (rule answered)
  next
    case True
    define evs where "evs = dispatch_events tm (content resp) tr1"
    define ms where "ms = round_messages (chain st) resp evs"
    show ?thesis
    proof (cases "list_ex dispatch_failed evs")
      case failed: True
      define p2 where "p2 = api_params_no_tools self ms sys"
      define r2 where "r2 = client self (tr1 @ evs) p2"
      have "round_body self tm sys tools st =
         Return (or_error ''Error generating response: '' (response_text r2))
           \<lparr>round_count = round_count st + 1, chain = ms, log = tr1 @ evs @ [ModelCall p2 r2]\<rparr>"
        using Inr True failed
        by (simp add: round_body_def messages_create_def Let_def handle_tool_execution_sequential_events
            round_messages_def p1_def r1_def tr1_def evs_def ms_def p2_def r2_def)
      with Inr True evs_def failed ms_def p2_def r2_def show ?thesis by (rule tool_failed)
    next
      case ok: False
      have "round_body self tm sys tools st =
         Continue \<lparr>round_count = round_count st + 1, chain = ms, log = tr1 @ evs\<rparr>"
        using Inr True ok
        by (simp add: round_body_def messages_create_def Let_def handle_tool_execution_sequential_events
            round_messages_def p1_def r1_def tr1_def evs_def ms_def)
      with Inr True evs_def ok ms_def show ?thesis by (rule continue)
    qed
  qed
qed



declare while_rounds.simps [simp del]

lemma final_call_eq:
  "final_call self sys st =
     (let p = api_params_no_tools self (chain st) sys; r = client self (log st) p
      in (or_error ''Error generating final response: '' (response_text r),
          st\<lparr>log := log st @ [ModelCall p r]\<rparr>))"
  by (simp add: final_call_def messages_create_def Let_def)

lemma while_rounds_cases [case_names final raised answered tool_failed continue]:
  obtains
    (final) p r where "\<not> round_count st < mr"
      "p = api_params_no_tools self (chain st) sys" "r = client self (log st) p"
      "while_rounds self tm sys tools mr st =
         (or_error ''Error generating final response: '' (response_text r),
          st\<lparr>log := log st @ [ModelCall p r]\<rparr>)"
  | (raised) p1 e where "round_count st < mr"
      "p1 = api_params_with_tools self (chain st) sys tools" "client self (log st) p1 = Inl e"
      "while_rounds self tm sys tools mr st =
         (''Error generating response: '' @ str_exn e, st\<lparr>log := log st @ [ModelCall p1 (Inl e)]\<rparr>)"
  | (answered) p1 resp where "round_count st < mr"
      "p1 = api_params_with_tools self (chain st) sys tools" "client self (log st) p1 = Inr resp"
      "stop_reason resp \<noteq> ''tool_use''"
      "while_rounds self tm sys tools mr st =
         (or_error ''Error generating response: '' (first_text (content resp)),
          \<lparr>round_count = round_count st + 1, chain = chain st,
           log = log st @ [ModelCall p1 (Inr resp)]\<rparr>)"
  | (tool_failed) p1 resp evs ms p2 r2 where "round_count st < mr"
      "p1 = api_params_with_tools self (chain st) sys tools" "client self (log st) p1 = Inr resp"
      "stop_reason resp = ''tool_use''"
      "evs = dispatch_events tm (content resp) (log st @ [ModelCall p1 (Inr resp)])"
      "list_ex dispatch_failed evs"
      "ms = round_messages (chain st) resp evs"
      "p2 = api_params_no_tools self ms sys"
      "r2 = client self (log st @ ModelCall p1 (Inr resp) # evs) p2"
      "while_rounds self tm sys tools mr st =
         (or_error ''Error generating response: '' (response_text r2),
          \<lparr>round_count = round_count st + 1, chain = ms,
           log = log st @ ModelCall p1 (Inr resp) # evs @ [ModelCall p2 r2]\<rparr>)"
  | (continue) p1 resp evs ms st2 where "round_count st < mr"
      "p1 = api_params_with_tools self (chain st) sys tools" "client self (log st) p1 = Inr resp"
      "stop_reason resp = ''tool_use''"
      "evs = dispatch_events tm (content resp) (log st @ [ModelCall p1 (Inr resp)])"
      "\<not> list_ex dispatch_failed evs"
      "ms = round_messages (chain st) resp evs"
      "st2 = \<lparr>round_count = round_count st + 1, chain = ms,
              log = log st @ ModelCall p1 (Inr resp) # evs\<rparr>"
      "round_body self tm sys tools st = Continue st2"
      "while_rounds self tm sys tools mr st = while_rounds self tm sys tools mr st2"
proof (cases "round_count st < mr")
  case False
  then show ?thesis
    by (intro final [OF False refl refl]) (simp add: while_rounds.simps final_call_eq Let_def)
next
  case True
  show ?thesis
  proof (cases rule: round_body_cases [where st=st and self=self and sys=sys and tools=tools and tm=tm])
    case (raised e)
    show ?thesis
      by (rule that(2) [OF True refl raised(1)]) (simp add: while_rounds.simps True raised)
  next
    case (answered resp)
    show ?thesis
      by (rule that(3) [OF True refl answered(1,2)]) (simp add: while_rounds.simps True answered)
  next
    case (tool_failed resp evs ms p2 r2)
    show ?thesis
      by (rule that(4) [OF True refl tool_failed(1,2) refl _ refl refl refl])
         (use tool_failed in \<open>simp_all add: while_rounds.simps True\<close>)
  next
    case (continue resp evs ms)
    show ?thesis
      by (rule that(5) [OF True refl continue(1,2) refl _ refl refl])
         (use continue in \<open>simp_all add: while_rounds.simps True\<close>)
  qed
qed

lemma while_rounds_log_prefix:
  "\<exists>ext. log (snd (while_rounds self tm sys tools mr st)) = log st @ ext"
proof (induction self tm sys tools mr st rule: while_rounds.induct)
  case (1 self tm sys tools mr st)
  show ?case
  proof (cases rule: while_rounds_cases [where st=st and mr=mr and self=self and sys=sys and tools=tools and tm=tm])
    case (continue p1 resp evs ms st2)
    from "1.IH" [OF continue(1,9)] obtain ext where
      "log (snd (while_rounds self tm sys tools mr st2)) = log st2 @ ext" by blast
    with continue(8,10) show ?thesis by simp
  qed simp_all
qed


lemma generate_response_single_call:
  assumes "tools = None \<or> tools = Some [] \<or> tool_manager = None"
  shows "generate_response self query h tools tool_manager mr =
     (let p = api_params_no_tools self [user_message query] (system_content_of h);
          r = client self [] p
      in (response_text r, [ModelCall p r]))"
  using assms
  by (auto simp: generate_response_def messages_create_def Let_def user_message_def
      split: option.splits)

lemma generate_response_rounds:
  assumes "ts \<noteq> []"
  shows "generate_response self query h (Some ts) (Some tm) mr =
     (case while_rounds self tm (system_content_of h) ts mr
             \<lparr>round_count = 0, chain = [user_message query], log = []\<rparr> of
        (answer, st) \<Rightarrow> (Inr answer, log st))"
  using assms
  by (simp add: generate_response_def execute_sequential_rounds_def Let_def user_message_def)

subsection \<open>Splitting a log at an event\<close>

lemma singleton_split: "[x] = pre @ e # post \<Longrightarrow> pre = [] \<and> e = x \<and> post = []"
  by (cases pre) auto

lemma split_after_head:
  "pre @ e # post = x # ys \<Longrightarrow> e \<noteq> x \<Longrightarrow> \<exists>pre1. pre = x # pre1 \<and> ys = pre1 @ e # post"
  by (cases pre) auto

lemma split_after_prefix:
  "pre @ e # post = xs @ ys \<Longrightarrow> e \<notin> set xs \<Longrightarrow> \<exists>pre'. pre = xs @ pre' \<and> ys = pre' @ e # post"
proof (induction xs arbitrary: pre)
  case Nil
  then show ?case by simp
next
  case (Cons x xs)
  then show ?case by (cases pre) auto
qed

lemma split_before_last:
  "pre @ e # post = xs @ [y] \<Longrightarrow> e \<noteq> y \<Longrightarrow> \<exists>post'. post = post' @ [y] \<and> xs = pre @ e # post'"
proof (induction pre arbitrary: xs)
  case Nil
  then show ?case by (cases xs) auto
next
  case (Cons a pre)
  then show ?case by (cases xs) auto
qed

lemma dispatch_events_ids:
  "map (\<lambda>d. map_of d ''tool_use_id'') (map result_of_event (dispatch_events tm bs tr)) =
     map Some (tool_use_ids bs)"
  by (induction tm bs tr rule: dispatch_events.induct) (simp_all add: tool_result_def)

subsection \<open>The shape of the log of the round loop\<close>


lemma while_rounds_all_tool_use:
  assumes "while_rounds self tm sys tools mr st = (a, st')"
    and "log st' = log st @ ext"
    and "\<forall>e\<in>set ext. tool_enabled e \<longrightarrow> requests_tool_use e"
    and "\<forall>e\<in>set ext. \<not> dispatch_failed e"
  shows "\<exists>body p r. ext = body @ [ModelCall p r] \<and> p_tools p = None \<and> p_tool_choice p = None
           \<and> a = or_error ''Error generating final response: '' (response_text r)
           \<and> map tool_enabled (filter is_model_call body) = replicate (nat (mr - round_count st)) True"
  using assms
proof (induction self tm sys tools mr st arbitrary: ext rule: while_rounds.induct)
  case (1 self tm sys tools mr st)
  show ?case
  proof (cases rule: while_rounds_cases [where st=st and mr=mr and self=self and sys=sys and tools=tools and tm=tm])
    case (final p r)
    with "1.prems"(1,2) have "ext = [] @ [ModelCall p r]"
      and "a = or_error ''Error generating final response: '' (response_text r)" by auto
    moreover have "p_tools p = None" "p_tool_choice p = None"
      by (simp_all add: final(2) api_params_no_tools_def)
    moreover have "map tool_enabled (filter is_model_call []) = replicate (nat (mr - round_count st)) True"
      using final(1) by simp
    ultimately show ?thesis by blast
  next
    case (raised p1 e)
    with "1.prems"(1,2) have "ext = [ModelCall p1 (Inl e)]" by auto
    with "1.prems"(3) raised(2) show ?thesis by (simp add: api_params_with_tools_def)
  next
    case (answered p1 resp)
    with "1.prems"(1,2) have "ext = [ModelCall p1 (Inr resp)]" by auto
    with "1.prems"(3) answered(2,4) show ?thesis by (simp add: api_params_with_tools_def)
  next
    case (tool_failed p1 resp evs ms p2 r2)
    with "1.prems"(1,2) have "ext = ModelCall p1 (Inr resp) # evs @ [ModelCall p2 r2]" by auto
    with "1.prems"(4) tool_failed(6) show ?thesis by (auto simp: list_ex_iff)
  next
    case (continue p1 resp evs ms st2)
    from while_rounds_log_prefix [of self tm sys tools mr st2] obtain ext' where
      "log (snd (while_rounds self tm sys tools mr st2)) = log st2 @ ext'" by blast
    with "1.prems"(1) continue(10) have l2: "log st' = log st2 @ ext'" by simp
    with "1.prems"(2) continue(8) have ext: "ext = ModelCall p1 (Inr resp) # evs @ ext'" by simp
    from "1.prems"(1) continue(10) have w2: "while_rounds self tm sys tools mr st2 = (a, st')" by simp
    from ext "1.prems"(3,4) have
      "\<forall>e\<in>set ext'. tool_enabled e \<longrightarrow> requests_tool_use e" "\<forall>e\<in>set ext'. \<not> dispatch_failed e"
      by auto
    from "1.IH" [OF continue(1,9) w2 l2 this] obtain body p r where
      b: "ext' = body @ [ModelCall p r]" "p_tools p = None" "p_tool_choice p = None"
         "a = or_error ''Error generating final response: '' (response_text r)"
         "map tool_enabled (filter is_model_call body) = replicate (nat (mr - round_count st2)) True"
      by blast
    have "\<not> list_ex is_model_call evs"
      unfolding continue(5) by (rule dispatch_events_no_model_call)
    then have nomc: "filter is_model_call evs = []"
      by (auto simp: list_ex_iff filter_empty_conv)
    have "nat (mr - round_count st) = Suc (nat (mr - round_count st2))"
      using continue(1,8) by simp
    with b(5) nomc continue(2) have
      "map tool_enabled (filter is_model_call (ModelCall p1 (Inr resp) # evs @ body)) =
         replicate (nat (mr - round_count st)) True"
      by (simp add: api_params_with_tools_def)
    moreover from ext b(1) have "ext = (ModelCall p1 (Inr resp) # evs @ body) @ [ModelCall p r]" by simp
    ultimately show ?thesis using b(2,3,4) by blast
  qed
qed

lemma while_rounds_after_failure:
  assumes "while_rounds self tm sys tools mr st = (a, st')"
    and "log st' = log st @ ext"
    and "ext = pre @ e # post"
    and "dispatch_failed e"
  shows "\<exists>more p r. post = more @ [ModelCall p r] \<and> \<not> list_ex is_model_call more
           \<and> p_tools p = None \<and> p_tool_choice p = None
           \<and> a = or_error ''Error generating response: '' (response_text r)
           \<and> (\<exists>evs. p_messages p \<noteq> [] \<and> e \<in> set evs \<and> \<not> list_ex is_model_call evs \<and>
                 last (p_messages p) = \<lparr>role = ''user'', m_content = ToolResults (map result_of_event evs)\<rparr>)"
  using assms
proof (induction self tm sys tools mr st arbitrary: ext pre rule: while_rounds.induct)
  case (1 self tm sys tools mr st)
  show ?case
  proof (cases rule: while_rounds_cases [where st=st and mr=mr and self=self and sys=sys and tools=tools and tm=tm])
    case (final p r)
    with "1.prems"(1,2) have "ext = [ModelCall p r]" by auto
    with "1.prems"(3) have "e = ModelCall p r" by (auto dest: singleton_split)
    with "1.prems"(4) show ?thesis by simp
  next
    case (raised p1 e')
    with "1.prems"(1,2) have "ext = [ModelCall p1 (Inl e')]" by auto
    with "1.prems"(3) have "e = ModelCall p1 (Inl e')" by (auto dest: singleton_split)
    with "1.prems"(4) show ?thesis by simp
  next
    case (answered p1 resp)
    with "1.prems"(1,2) have "ext = [ModelCall p1 (Inr resp)]" by auto
    with "1.prems"(3) have "e = ModelCall p1 (Inr resp)" by (auto dest: singleton_split)
    with "1.prems"(4) show ?thesis by simp
  next
    case (tool_failed p1 resp evs ms p2 r2)
    with "1.prems"(1,2) have ext: "ext = ModelCall p1 (Inr resp) # evs @ [ModelCall p2 r2]"
      and a: "a = or_error ''Error generating response: '' (response_text r2)" by auto
    from ext "1.prems"(3) have "pre @ e # post = ModelCall p1 (Inr resp) # (evs @ [ModelCall p2 r2])" by simp
    moreover from "1.prems"(4) have "e \<noteq> ModelCall p1 (Inr resp)" by auto
    ultimately obtain pre' where "pre' @ e # post = evs @ [ModelCall p2 r2]"
      using split_after_head [of pre e post "ModelCall p1 (Inr resp)" "evs @ [ModelCall p2 r2]"] by auto
    moreover from "1.prems"(4) have "e \<noteq> ModelCall p2 r2" by auto
    ultimately obtain post' where p: "post = post' @ [ModelCall p2 r2]" "evs = pre' @ e # post'"
      using split_before_last [of pre' e post evs "ModelCall p2 r2"] by metis
    have nomc: "\<not> list_ex is_model_call evs"
      unfolding tool_failed(5) by (rule dispatch_events_no_model_call)
    with p(2) have "\<not> list_ex is_model_call post'" by (auto simp: list_ex_iff)
    moreover have "p_tools p2 = None" "p_tool_choice p2 = None"
      by (simp_all add: tool_failed(8) api_params_no_tools_def)
    moreover from p(2) have "evs \<noteq> []" "e \<in> set evs" by auto
    then have "p_messages p2 \<noteq> [] \<and> e \<in> set evs \<and> \<not> list_ex is_model_call evs \<and>
        last (p_messages p2) = \<lparr>role = ''user'', m_content = ToolResults (map result_of_event evs)\<rparr>"
      using nomc by (simp add: tool_failed(7,8) api_params_no_tools_def round_messages_def)
    ultimately show ?thesis using p(1) a by blast
  next
    case (continue p1 resp evs ms st2)
    from while_rounds_log_prefix [of self tm sys tools mr st2] obtain ext' where
      "log (snd (while_rounds self tm sys tools mr st2)) = log st2 @ ext'" by blast
    with "1.prems"(1) continue(10) have l2: "log st' = log st2 @ ext'" by simp
    with "1.prems"(2) continue(8) have ext: "ext = (ModelCall p1 (Inr resp) # evs) @ ext'" by simp
    from "1.prems"(1) continue(10) have w2: "while_rounds self tm sys tools mr st2 = (a, st')" by simp
    from "1.prems"(4) continue(6) have "e \<notin> set (ModelCall p1 (Inr resp) # evs)"
      by (auto simp: list_ex_iff)
    with ext "1.prems"(3) obtain pre' where "ext' = pre' @ e # post"
      using split_after_prefix [of pre e post "ModelCall p1 (Inr resp) # evs" ext'] by auto
    from "1.IH" [OF continue(1,9) w2 l2 this "1.prems"(4)] show ?thesis .
  qed
qed

lemma while_rounds_answers_tool_use:
  assumes "while_rounds self tm sys tools mr st = (a, st')"
    and "log st' = log st @ ext"
  shows "(\<exists>p r rest. ext = ModelCall p r # rest \<and> p_messages p = chain st)
       \<and> (\<forall>pre p resp post. ext = pre @ ModelCall p (Inr resp) # post \<and> p_tools p \<noteq> None
              \<and> stop_reason resp = ''tool_use'' \<longrightarrow>
            (\<exists>tr0 evs p2 r2 rest. evs = dispatch_events tm (content resp) tr0
               \<and> post = evs @ ModelCall p2 r2 # rest
               \<and> p_messages p2 = round_messages (p_messages p) resp evs))"
  using assms
proof (induction self tm sys tools mr st arbitrary: ext rule: while_rounds.induct)
  case (1 self tm sys tools mr st)
  let ?answered = "\<lambda>p resp post. \<exists>tr0 evs p2 r2 rest. evs = dispatch_events tm (content resp) tr0
               \<and> post = evs @ ModelCall p2 r2 # rest
               \<and> p_messages p2 = round_messages (p_messages p) resp evs"
  show ?case
  proof (cases rule: while_rounds_cases [where st=st and mr=mr and self=self and sys=sys and tools=tools and tm=tm])
    case (final p r)
    with "1.prems"(1,2) have ext: "ext = [ModelCall p r]" by auto
    have pm: "p_messages p = chain st" "p_tools p = None"
      by (simp_all add: final(2) api_params_no_tools_def)
    have "?answered p' resp post"
      if "ext = pre @ ModelCall p' (Inr resp) # post" "p_tools p' \<noteq> None" for pre p' resp post
    proof -
      from that(1) ext have "ModelCall p' (Inr resp) = ModelCall p r" by (auto dest: singleton_split)
      with that(2) pm(2) show ?thesis by simp
    qed
    with ext pm(1) show ?thesis by blast
  next
    case (raised p1 e)
    with "1.prems"(1,2) have ext: "ext = [ModelCall p1 (Inl e)]" by auto
    have pm: "p_messages p1 = chain st" by (simp add: raised(2) api_params_with_tools_def)
    have "?answered p' resp post"
      if "ext = pre @ ModelCall p' (Inr resp) # post" for pre p' resp post
    proof -
      from that(1) ext have "ModelCall p' (Inr resp) = ModelCall p1 (Inl e)" by (auto dest: singleton_split)
      then show ?thesis by simp
    qed
    with ext pm show ?thesis by blast
  next
    case (answered p1 resp1)
    with "1.prems"(1,2) have ext: "ext = [ModelCall p1 (Inr resp1)]" by auto
    have pm: "p_messages p1 = chain st" by (simp add: answered(2) api_params_with_tools_def)
    have "?answered p' resp post"
      if "ext = pre @ ModelCall p' (Inr resp) # post" "stop_reason resp = ''tool_use''" for pre p' resp post
    proof -
      from that(1) ext have "ModelCall p' (Inr resp) = ModelCall p1 (Inr resp1)" by (auto dest: singleton_split)
      with that(2) answered(4) show ?thesis by simp
    qed
    with ext pm show ?thesis by blast
  next
    case (tool_failed p1 resp1 evs ms p2 r2)
    with "1.prems"(1,2) have ext: "ext = ModelCall p1 (Inr resp1) # evs @ [ModelCall p2 r2]" by auto
    have nomc: "\<not> list_ex is_model_call evs"
      unfolding tool_failed(5) by (rule dispatch_events_no_model_call)
    have p1m: "p_messages p1 = chain st" by (simp add: tool_failed(2) api_params_with_tools_def)
    have p2m: "p_messages p2 = round_messages (p_messages p1) resp1 evs"
      by (simp add: p1m tool_failed(7,8) api_params_no_tools_def)
    have p2t: "p_tools p2 = None" by (simp add: tool_failed(8) api_params_no_tools_def)
    have "?answered p resp post"
      if d: "ext = pre @ ModelCall p (Inr resp) # post" and t: "p_tools p \<noteq> None"
      for pre p resp post
    proof (cases pre)
      case Nil
      with d ext have "p = p1" "resp = resp1" "post = evs @ ModelCall p2 r2 # []" by auto
      with p2m tool_failed(5) show ?thesis by blast
    next
      case (Cons x pre1)
      with d ext have "pre1 @ ModelCall p (Inr resp) # post = evs @ [ModelCall p2 r2]" by simp
      moreover from t p2t have "ModelCall p (Inr resp) \<noteq> ModelCall p2 r2" by auto
      ultimately obtain post' where "evs = pre1 @ ModelCall p (Inr resp) # post'"
        using split_before_last [of pre1 "ModelCall p (Inr resp)" post evs "ModelCall p2 r2"] by auto
      then have "ModelCall p (Inr resp) \<in> set evs" by simp
      with nomc show ?thesis by (auto simp: list_ex_iff)
    qed
    with ext p1m show ?thesis by blast
  next
    case (continue p1 resp1 evs ms st2)
    from while_rounds_log_prefix [of self tm sys tools mr st2] obtain ext' where
      "log (snd (while_rounds self tm sys tools mr st2)) = log st2 @ ext'" by blast
    with "1.prems"(1) continue(10) have l2: "log st' = log st2 @ ext'" by simp
    with "1.prems"(2) continue(8) have ext: "ext = ModelCall p1 (Inr resp1) # evs @ ext'" by simp
    from "1.prems"(1) continue(10) have w2: "while_rounds self tm sys tools mr st2 = (a, st')" by simp
    note IH = "1.IH" [OF continue(1,9) w2 l2]
    from IH obtain p2 r2 rest2 where first: "ext' = ModelCall p2 r2 # rest2" "p_messages p2 = chain st2"
      by blast
    from IH have IH2: "?answered p resp post"
      if "ext' = pre @ ModelCall p (Inr resp) # post" "p_tools p \<noteq> None" "stop_reason resp = ''tool_use''"
      for pre p resp post
      using that by blast
    have nomc: "\<not> list_ex is_model_call evs"
      unfolding continue(5) by (rule dispatch_events_no_model_call)
    have p1m: "p_messages p1 = chain st" by (simp add: continue(2) api_params_with_tools_def)
    have p2m: "p_messages p2 = round_messages (p_messages p1) resp1 evs"
      by (simp add: p1m first(2) continue(7,8))
    have "?answered p resp post"
      if d: "ext = pre @ ModelCall p (Inr resp) # post" and t: "p_tools p \<noteq> None"
        and s: "stop_reason resp = ''tool_use''"
      for pre p resp post
    proof (cases pre)
      case Nil
      with d ext first(1) have "p = p1" "resp = resp1" "post = evs @ ModelCall p2 r2 # rest2" by auto
      with p2m continue(5) show ?thesis by blast
    next
      case (Cons x pre1)
      with d ext have "pre1 @ ModelCall p (Inr resp) # post = evs @ ext'" by simp
      moreover from nomc have "ModelCall p (Inr resp) \<notin> set evs" by (auto simp: list_ex_iff)
      ultimately obtain pre' where "ext' = pre' @ ModelCall p (Inr resp) # post"
        using split_after_prefix [of pre1 "ModelCall p (Inr resp)" post evs ext'] by auto
      from IH2 [OF this t s] show ?thesis .
    qed
    with ext p1m show ?thesis by blast
  qed
qed

subsection \<open>From the entry point to the loop, and two runs\<close>

lemma rounds_run:
  assumes "ts \<noteq> []" and "generate_response self query h (Some ts) (Some tm) mr = (answer, tr)"
  obtains a st' where
    "while_rounds self tm (system_content_of h) ts mr
       \<lparr>round_count = 0, chain = [user_message query], log = []\<rparr> = (a, st')"
    "answer = Inr a" "tr = log st'"
proof -
  obtain a st' where w: "while_rounds self tm (system_content_of h) ts mr
       \<lparr>round_count = 0, chain = [user_message query], log = []\<rparr> = (a, st')"
    by (cases "while_rounds self tm (system_content_of h) ts mr
       \<lparr>round_count = 0, chain = [user_message query], log = []\<rparr>")
  with assms have "answer = Inr a" "tr = log st'"
    by (simp_all add: generate_response_rounds)
  with w show thesis by (rule that)
qed

lemma text_of_first_block:
  "r = Inr resp \<Longrightarrow> content resp = TextBlock t # bs \<Longrightarrow> or_error prefix (response_text r) = t"
  by (simp add: or_error_def response_text_def)

lemmas demo_run_defs = generate_response_def execute_sequential_rounds_def while_rounds.simps round_body_def
      final_call_def handle_tool_execution_sequential_def messages_create_def response_text_def
      or_error_def tool_result_def system_content_of_def user_message_def Let_def
      demo_generator_def demo_tools_def demo_tool_manager_def demo_tool_use_def demo_answer_def
      api_params_with_tools_def api_params_no_tools_def

lemma demo_run_one_round:
  "generate_response demo_generator ''What is RAG?'' None (Some demo_tools) (Some demo_tool_manager) 1 =
     (Inr ''An answer.'',
      [ModelCall (api_params_with_tools demo_generator [user_message ''What is RAG?''] SYSTEM_PROMPT demo_tools)
         (Inr demo_tool_use),
       ToolCall ''toolu_1'' ''search_course_content'' [(''query'', JStr ''RAG'')]
         (Inr ''[Course A - Lesson 1] text''),
       ModelCall (api_params_no_tools demo_generator
          [user_message ''What is RAG?'',
           \<lparr>role = ''assistant'', m_content = Blocks (content demo_tool_use)\<rparr>,
           \<lparr>role = ''user'', m_content = ToolResults
              [[(''type'', ''tool_result''), (''tool_use_id'', ''toolu_1''),
                (''content'', ''[Course A - Lesson 1] text'')]]\<rparr>] SYSTEM_PROMPT)
         (Inr demo_answer)])"
  by (simp add: generate_response_def execute_sequential_rounds_def while_rounds.simps round_body_def
      final_call_def handle_tool_execution_sequential_def messages_create_def response_text_def
      or_error_def tool_result_def system_content_of_def user_message_def Let_def
      demo_generator_def demo_tools_def demo_tool_manager_def demo_tool_use_def demo_answer_def
      api_params_with_tools_def api_params_no_tools_def)


lemma demo_run_tool_failure:
  "generate_response demo_generator ''What is RAG?'' None (Some demo_tools) (Some failing_tool_manager) 2 =
     (Inr ''An answer.'',
      [ModelCall (api_params_with_tools demo_generator [user_message ''What is RAG?''] SYSTEM_PROMPT demo_tools)
         (Inr demo_tool_use)] @
       ToolCall ''toolu_1'' ''search_course_content'' [(''query'', JStr ''RAG'')]
         (Inl (Raised ''backend unreachable'')) #
      [ModelCall (api_params_no_tools demo_generator
          [user_message ''What is RAG?'',
           \<lparr>role = ''assistant'', m_content = Blocks (content demo_tool_use)\<rparr>,
           \<lparr>role = ''user'', m_content = ToolResults
              [[(''type'', ''tool_result''), (''tool_use_id'', ''toolu_1''),
                (''content'', ''Tool execution failed: backend unreachable'')]]\<rparr>] SYSTEM_PROMPT)
         (Inr demo_answer)])"
  by (simp add: generate_response_def execute_sequential_rounds_def while_rounds.simps round_body_def
      final_call_def handle_tool_execution_sequential_def messages_create_def response_text_def
      or_error_def tool_result_def system_content_of_def user_message_def Let_def
      demo_generator_def demo_tools_def failing_tool_manager_def demo_tool_use_def demo_answer_def
      api_params_with_tools_def api_params_no_tools_def)

section \<open>The claims\<close>

subsection \<open>A model that asks for tools in every round\<close>

text \<open>
  Claim C1, for every integer budget. Take an invocation with a non-empty tool list and a
  tool manager in which every tool-enabled model call returned a response with
  \<^verbatim>\<open>stop_reason\<close> \<^verbatim>\<open>tool_use\<close> and no tool dispatch raised. Then the model calls of the
  log are \<open>max 0 max_rounds\<close> tool-enabled calls followed by exactly one call without
  tools, which is the last event; there are \<open>max 0 max_rounds + 1\<close> model calls in all,
  which is \<open>max_rounds + 1\<close> when \<open>max_rounds\<close> is not negative. The answer is the text of
  the final call (or the string \<^verbatim>\<open>Error generating final response: ...\<close> when the final
  call yields no text).
\<close>

theorem budget_exhausted_final_call:
  assumes "ts \<noteq> []"
    and "generate_response self query h (Some ts) (Some tm) max_rounds = (answer, tr)"
    and "\<forall>e\<in>set tr. tool_enabled e \<longrightarrow> requests_tool_use e"
    and "\<forall>e\<in>set tr. \<not> dispatch_failed e"
  shows "map tool_enabled (filter is_model_call tr) = replicate (nat max_rounds) True @ [False]
    \<and> length (filter is_model_call tr) = nat max_rounds + 1
    \<and> (\<exists>body p r. tr = body @ [ModelCall p r] \<and> p_tools p = None \<and> p_tool_choice p = None
          \<and> answer = Inr (or_error ''Error generating final response: '' (response_text r))
          \<and> (\<forall>resp t bs. r = Inr resp \<and> content resp = TextBlock t # bs \<longrightarrow> answer = Inr t))"
proof -
  from assms(1,2) obtain a st' where
    w: "while_rounds self tm (system_content_of h) ts max_rounds
       \<lparr>round_count = 0, chain = [user_message query], log = []\<rparr> = (a, st')"
    and a: "answer = Inr a" and tr: "tr = log st'"
    by (rule rounds_run)
  from tr have l: "log st' = log \<lparr>round_count = 0, chain = [user_message query], log = []\<rparr> @ tr" by simp
  from while_rounds_all_tool_use [OF w l assms(3,4)] obtain body p r where
    b: "tr = body @ [ModelCall p r]" "p_tools p = None" "p_tool_choice p = None"
       "a = or_error ''Error generating final response: '' (response_text r)"
       "map tool_enabled (filter is_model_call body) = replicate (nat max_rounds) True"
    by auto
  from b(1,2,5) have m: "map tool_enabled (filter is_model_call tr) = replicate (nat max_rounds) True @ [False]"
    by simp
  from arg_cong [OF m, of length] have n: "length (filter is_model_call tr) = nat max_rounds + 1" by simp
  have "\<forall>resp t bs. r = Inr resp \<and> content resp = TextBlock t # bs \<longrightarrow> answer = Inr t"
    using a b(4) by (auto simp: text_of_first_block)
  with m n b(1,2,3,4) a show ?thesis by blast
qed

theorem budget_exhausted_final_call_witness:
  "demo_tools \<noteq> []
   \<and> map requests_tool_use (filter tool_enabled
         (snd (generate_response demo_generator ''What is RAG?'' None (Some demo_tools) (Some demo_tool_manager) 2)))
       = [True, True]
   \<and> filter dispatch_failed
         (snd (generate_response demo_generator ''What is RAG?'' None (Some demo_tools) (Some demo_tool_manager) 2))
       = []
   \<and> map tool_enabled (filter is_model_call
         (snd (generate_response demo_generator ''What is RAG?'' None (Some demo_tools) (Some demo_tool_manager) 2)))
       = [True, True, False]
   \<and> length (filter is_model_call
         (snd (generate_response demo_generator ''What is RAG?'' None (Some demo_tools) (Some demo_tool_manager) 2)))
       = 3
   \<and> fst (generate_response demo_generator ''What is RAG?'' None (Some demo_tools) (Some demo_tool_manager) 2)
       = Inr ''An answer.''"
proof -
  have ne: "demo_tools \<noteq> []" by (simp add: demo_tools_def)
  have h1: "\<forall>e\<in>set (snd (generate_response demo_generator ''What is RAG?'' None (Some demo_tools) (Some demo_tool_manager) 2)).
         tool_enabled e \<longrightarrow> requests_tool_use e"
    by (simp add: demo_run_defs)
  have h2: "\<forall>e\<in>set (snd (generate_response demo_generator ''What is RAG?'' None (Some demo_tools) (Some demo_tool_manager) 2)).
         \<not> dispatch_failed e"
    by (simp add: demo_run_defs)
  have r: "map requests_tool_use (filter tool_enabled
         (snd (generate_response demo_generator ''What is RAG?'' None (Some demo_tools) (Some demo_tool_manager) 2)))
       = [True, True]"
    by (simp add: demo_run_defs)
  have a: "fst (generate_response demo_generator ''What is RAG?'' None (Some demo_tools) (Some demo_tool_manager) 2)
       = Inr ''An answer.''"
    by (simp add: demo_run_defs)
  from budget_exhausted_final_call [OF ne surjective_pairing h1 h2] ne r a show ?thesis
    using h2 by (simp add: filter_empty_conv numeral_2_eq_2)
qed

text \<open>
  Claim C1 as stated gives \<open>max_rounds + 1\<close> model calls for every budget. With
  \<open>max_rounds = -1\<close> no round runs, its hypotheses hold of the log, and the final call is
  still made: one model call, not zero.
\<close>

theorem negative_budget_counterexample:
  "generate_response demo_generator ''What is RAG?'' None (Some demo_tools) (Some demo_tool_manager) (- 1) =
     (Inr ''An answer.'',
      [ModelCall (api_params_no_tools demo_generator [user_message ''What is RAG?''] SYSTEM_PROMPT)
         (Inr demo_answer)])
   \<and> int (length (filter is_model_call
         (snd (generate_response demo_generator ''What is RAG?'' None (Some demo_tools) (Some demo_tool_manager) (- 1)))))
       \<noteq> (- 1) + 1"
  by (simp add: generate_response_def execute_sequential_rounds_def while_rounds.simps
      final_call_def messages_create_def response_text_def or_error_def system_content_of_def
      user_message_def Let_def demo_generator_def demo_tools_def demo_answer_def api_params_no_tools_def)

subsection \<open>A tool dispatch that raises\<close>

text \<open>
  Claim C2. Wherever a tool dispatch that raised stands in the log of an invocation, what
  follows it is the remaining dispatches of the same response, if any, and then exactly
  one model call, made without \<^verbatim>\<open>tools\<close> and \<^verbatim>\<open>tool_choice\<close>; that call ends the
  log, so no tool-enabled round comes after the failure, whatever the budget. The answer is
  the text of that call (or the string \<^verbatim>\<open>Error generating response: ...\<close> when it yields
  no text).
\<close>

theorem tool_failure_forces_final_call:
  assumes "ts \<noteq> []"
    and "generate_response self query h (Some ts) (Some tm) max_rounds = (answer, tr)"
    and "tr = pre @ ToolCall i n inp (Inl e) # post"
  shows "\<exists>more p r. post = more @ [ModelCall p r] \<and> \<not> list_ex is_model_call more
          \<and> p_tools p = None \<and> p_tool_choice p = None
          \<and> answer = Inr (or_error ''Error generating response: '' (response_text r))
          \<and> (\<forall>resp t bs. r = Inr resp \<and> content resp = TextBlock t # bs \<longrightarrow> answer = Inr t)"
proof -
  from assms(1,2) obtain a st' where
    w: "while_rounds self tm (system_content_of h) ts max_rounds
       \<lparr>round_count = 0, chain = [user_message query], log = []\<rparr> = (a, st')"
    and a: "answer = Inr a" and tr: "tr = log st'"
    by (rule rounds_run)
  from tr have l: "log st' = log \<lparr>round_count = 0, chain = [user_message query], log = []\<rparr> @ tr" by simp
  have f: "dispatch_failed (ToolCall i n inp (Inl e))" by simp
  from while_rounds_after_failure [OF w l assms(3) f] obtain more p r where
    m: "post = more @ [ModelCall p r]" "\<not> list_ex is_model_call more"
       "p_tools p = None" "p_tool_choice p = None"
       "a = or_error ''Error generating response: '' (response_text r)"
    by blast
  have "\<forall>resp t bs. r = Inr resp \<and> content resp = TextBlock t # bs \<longrightarrow> answer = Inr t"
    using a m(5) by (auto simp: text_of_first_block)
  with m a show ?thesis by blast
qed

theorem tool_failure_forces_final_call_witness:
  "demo_tools \<noteq> []
   \<and> round_count (snd (execute_sequential_rounds demo_generator [user_message ''What is RAG?'']
         SYSTEM_PROMPT demo_tools failing_tool_manager 2)) < 2
   \<and> fst (generate_response demo_generator ''What is RAG?'' None (Some demo_tools) (Some failing_tool_manager) 2)
       = Inr ''An answer.''
   \<and> map tool_enabled
       (snd (generate_response demo_generator ''What is RAG?'' None (Some demo_tools) (Some failing_tool_manager) 2))
       = [True, False, False]"
proof -
  have ne: "demo_tools \<noteq> []" by (simp add: demo_tools_def)
  have rc: "round_count (snd (execute_sequential_rounds demo_generator [user_message ''What is RAG?'']
         SYSTEM_PROMPT demo_tools failing_tool_manager 2)) < 2"
    by (simp add: execute_sequential_rounds_def while_rounds.simps round_body_def
        handle_tool_execution_sequential_def messages_create_def Let_def
        demo_generator_def failing_tool_manager_def demo_tool_use_def
        api_params_with_tools_def api_params_no_tools_def)
  from tool_failure_forces_final_call [OF ne demo_run_tool_failure refl] ne rc show ?thesis
    by (simp add: demo_run_tool_failure api_params_with_tools_def api_params_no_tools_def)
qed

subsection \<open>A failing provider\<close>

text \<open>
  Claim C3 says that a failing model call always ends in an error string, also on the
  tool-free path. Evaluated on a provider that raises: with no tools the exception leaves
  \<^verbatim>\<open>generate_response\<close> (the single call of the tool-free path is not inside a
  \<^verbatim>\<open>try\<close>), whereas with tools the round loop catches the same exception and answers
  with an error string.
\<close>

theorem provider_failure_escapes_tool_free_path:
  "fst (generate_response failing_generator ''What is RAG?'' None None None 2) =
     Inl (Raised ''connection refused'')
   \<and> fst (generate_response failing_generator ''What is RAG?'' None (Some demo_tools) (Some demo_tool_manager) 2) =
     Inr ''Error generating response: connection refused''"
  by (simp add: generate_response_def execute_sequential_rounds_def while_rounds.simps round_body_def
      messages_create_def response_text_def failing_generator_def demo_tools_def Let_def)

subsection \<open>The tool-free path\<close>

text \<open>
  Claim C4. When no tool list is supplied, or the list is empty, or no tool manager is
  supplied, \<^verbatim>\<open>generate_response\<close> makes exactly one model call: the log is that one
  call. Its parameters carry neither \<^verbatim>\<open>tools\<close> nor \<^verbatim>\<open>tool_choice\<close>, and the text
  of the first content block of the response is the answer, unchanged.
\<close>

theorem tool_free_path_single_call:
  fixes self query h
  defines "p \<equiv> api_params_no_tools self [\<lparr>role = ''user'', m_content = Str query\<rparr>] (system_content_of h)"
  defines "r \<equiv> client self [] p"
  assumes "tools = None \<or> tools = Some [] \<or> tool_manager = None"
  shows "generate_response self query h tools tool_manager max_rounds =
            (response_text r, [ModelCall p r])
          \<and> p_tools p = None \<and> p_tool_choice p = None
          \<and> (\<forall>resp t bs. r = Inr resp \<and> content resp = TextBlock t # bs \<longrightarrow>
                fst (generate_response self query h tools tool_manager max_rounds) = Inr t)"
  using generate_response_single_call [OF assms(3), of self query h max_rounds]
  by (auto simp: Let_def api_params_no_tools_def response_text_def user_message_def p_def r_def)

theorem tool_free_path_single_call_witness:
  "generate_response direct_generator ''What is RAG?'' None None (Some demo_tool_manager) 2 =
     (Inr ''An answer.'',
      [ModelCall (api_params_no_tools direct_generator [user_message ''What is RAG?''] SYSTEM_PROMPT)
         (Inr demo_answer)])"
  using tool_free_path_single_call [of None "Some demo_tool_manager" direct_generator "''What is RAG?''" None 2]
  by (simp add: direct_generator_def demo_answer_def api_params_no_tools_def user_message_def
      response_text_def system_content_of_def)

subsection \<open>A first round that asks for no tool\<close>

text \<open>
  Claim C5. If the first event of an invocation with tools is a tool-enabled model call
  whose response has a \<^verbatim>\<open>stop_reason\<close> other than \<^verbatim>\<open>tool_use\<close>, then that call is
  the whole log (one model call, no tool dispatch), \<^verbatim>\<open>round_count\<close> is 1 on return,
  and the answer is the text of the first content block of that response.
\<close>

theorem first_round_fast_exit:
  assumes "ts \<noteq> []"
    and "generate_response self query h (Some ts) (Some tm) max_rounds = (answer, tr)"
    and "tr = ModelCall p (Inr resp) # rest"
    and "p_tools p \<noteq> None"
    and "stop_reason resp \<noteq> ''tool_use''"
  shows "rest = []
    \<and> answer = Inr (or_error ''Error generating response: '' (first_text (content resp)))
    \<and> (\<forall>t bs. content resp = TextBlock t # bs \<longrightarrow> answer = Inr t)
    \<and> round_count (snd (execute_sequential_rounds self [\<lparr>role = ''user'', m_content = Str query\<rparr>]
          (system_content_of h) ts tm max_rounds)) = 1"
proof -
  let ?st = "\<lparr>round_count = 0, chain = [user_message query], log = []\<rparr>"
  let ?sys = "system_content_of h"
  obtain a st' where w: "while_rounds self tm ?sys ts max_rounds ?st = (a, st')"
    by (cases "while_rounds self tm ?sys ts max_rounds ?st")
  with assms(1,2) have ans: "answer = Inr a" and tr: "tr = log st'"
    by (simp_all add: generate_response_rounds)
  have "rest = [] \<and> a = or_error ''Error generating response: '' (first_text (content resp))
      \<and> round_count st' = 1"
  proof (cases rule: while_rounds_cases [where st="?st" and mr=max_rounds and self=self and sys="?sys" and tools=ts and tm=tm])
    case (final p' r)
    with w tr assms(3,4) show ?thesis by (auto simp: api_params_no_tools_def)
  next
    case (raised p1 e)
    with w tr assms(3) show ?thesis by auto
  next
    case (answered p1 resp')
    with w tr assms(3) show ?thesis by auto
  next
    case (tool_failed p1 resp' evs ms p2 r2)
    with w tr assms(3,5) show ?thesis by auto
  next
    case (continue p1 resp' evs ms st2)
    from while_rounds_log_prefix [of self tm ?sys ts max_rounds st2] obtain ext where
      "log (snd (while_rounds self tm ?sys ts max_rounds st2)) = log st2 @ ext" by blast
    with w continue(10) have "log st' = log st2 @ ext" by simp
    with tr continue(8) have "tr = ModelCall p1 (Inr resp') # evs @ ext" by simp
    with assms(3) have "resp = resp'" by simp
    with continue(4) assms(5) show ?thesis by simp
  qed
  then show ?thesis
    using ans w by (auto simp: execute_sequential_rounds_def user_message_def or_error_def)
qed

theorem first_round_fast_exit_witness:
  "generate_response direct_generator ''What is RAG?'' None (Some demo_tools) (Some demo_tool_manager) 2 =
     (Inr ''An answer.'',
      [ModelCall (api_params_with_tools direct_generator [user_message ''What is RAG?''] SYSTEM_PROMPT demo_tools)
         (Inr demo_answer)])
   \<and> round_count (snd (execute_sequential_rounds direct_generator [user_message ''What is RAG?'']
          SYSTEM_PROMPT demo_tools demo_tool_manager 2)) = 1"
proof -
  have ne: "demo_tools \<noteq> []" by (simp add: demo_tools_def)
  let ?p = "api_params_with_tools direct_generator [user_message ''What is RAG?''] SYSTEM_PROMPT demo_tools"
  have run: "generate_response direct_generator ''What is RAG?'' None (Some demo_tools) (Some demo_tool_manager) 2 =
     (Inr ''An answer.'', ModelCall ?p (Inr demo_answer) # [])"
    by (simp add: generate_response_def execute_sequential_rounds_def while_rounds.simps round_body_def
        messages_create_def direct_generator_def demo_answer_def demo_tools_def or_error_def
        system_content_of_def user_message_def Let_def)
  have t: "p_tools ?p \<noteq> None" by (simp add: api_params_with_tools_def)
  have s: "stop_reason demo_answer \<noteq> ''tool_use''" by (simp add: demo_answer_def)
  from first_round_fast_exit [OF ne run refl t s] run show ?thesis
    by (simp add: user_message_def system_content_of_def)
qed


subsection \<open>Tool uses and their results\<close>

text \<open>
  Claim C6. Wherever a tool-enabled model call whose response has \<^verbatim>\<open>stop_reason\<close>
  \<^verbatim>\<open>tool_use\<close> stands in the log, there is a next model call, with only tool dispatches
  in between, and its message chain is the chain of the earlier call, then one assistant
  message with the content of the response, then (when the response has a tool-use block)
  one user message of tool results. The results answer the tool-use blocks one for one and
  in order: there are as many results as tool-use blocks, and the \<^verbatim>\<open>tool_use_id\<close> of
  the k-th result is the id of the k-th tool-use block.
\<close>

theorem tool_use_answered_before_next_call:
  assumes "ts \<noteq> []"
    and "generate_response self query h (Some ts) (Some tm) max_rounds = (answer, tr)"
    and "tr = pre @ ModelCall p (Inr resp) # post"
    and "p_tools p \<noteq> None"
    and "stop_reason resp = ''tool_use''"
  shows "\<exists>evs p2 r2 rest results. post = evs @ ModelCall p2 r2 # rest
          \<and> \<not> list_ex is_model_call evs
          \<and> length results = length (tool_use_ids (content resp))
          \<and> map (\<lambda>d. map_of d ''tool_use_id'') results = map Some (tool_use_ids (content resp))
          \<and> (\<forall>d\<in>set results. map_of d ''type'' = Some ''tool_result'')
          \<and> p_messages p2 =
               p_messages p @ \<lparr>role = ''assistant'', m_content = Blocks (content resp)\<rparr> #
                 (if tool_use_ids (content resp) = [] then []
                  else [\<lparr>role = ''user'', m_content = ToolResults results\<rparr>])"
proof -
  from assms(1,2) obtain a st' where
    w: "while_rounds self tm (system_content_of h) ts max_rounds
       \<lparr>round_count = 0, chain = [user_message query], log = []\<rparr> = (a, st')"
    and tr: "tr = log st'"
    by (rule rounds_run)
  from tr have l: "log st' = log \<lparr>round_count = 0, chain = [user_message query], log = []\<rparr> @ tr" by simp
  from while_rounds_answers_tool_use [OF w l] assms(3,4,5) obtain tr0 evs p2 r2 rest where
    e: "evs = dispatch_events tm (content resp) tr0" "post = evs @ ModelCall p2 r2 # rest"
       "p_messages p2 = round_messages (p_messages p) resp evs"
    by blast
  define results where "results = map result_of_event evs"
  have ids: "map (\<lambda>d. map_of d ''tool_use_id'') results = map Some (tool_use_ids (content resp))"
    unfolding results_def e(1) by (rule dispatch_events_ids)
  from arg_cong [OF ids, of length] have len: "length results = length (tool_use_ids (content resp))"
    by simp
  then have "length evs = length (tool_use_ids (content resp))"
    by (simp add: results_def)
  then have empty: "evs = [] \<longleftrightarrow> tool_use_ids (content resp) = []"
    by (metis length_0_conv)
  have nomc: "\<not> list_ex is_model_call evs"
    unfolding e(1) by (rule dispatch_events_no_model_call)
  have ty: "\<forall>d\<in>set results. map_of d ''type'' = Some ''tool_result''"
  proof
    fix d assume "d \<in> set results"
    then obtain ev where ev: "ev \<in> set evs" "d = result_of_event ev" by (auto simp: results_def)
    with nomc show "map_of d ''type'' = Some ''tool_result''"
      by (cases ev) (auto simp: list_ex_iff tool_result_def)
  qed
  have "p_messages p2 =
               p_messages p @ \<lparr>role = ''assistant'', m_content = Blocks (content resp)\<rparr> #
                 (if tool_use_ids (content resp) = [] then []
                  else [\<lparr>role = ''user'', m_content = ToolResults results\<rparr>])"
    using e(3) empty by (simp add: round_messages_def results_def)
  with e(2) nomc len ids ty show ?thesis by blast
qed

theorem tool_use_answered_before_next_call_witness:
  "demo_tools \<noteq> []
   \<and> p_tools (api_params_with_tools demo_generator [user_message ''What is RAG?''] SYSTEM_PROMPT demo_tools) \<noteq> None
   \<and> stop_reason demo_tool_use = ''tool_use''
   \<and> tool_use_ids (content demo_tool_use) = [''toolu_1'']
   \<and> map (\<lambda>ev. case ev of ModelCall p r \<Rightarrow> map m_content (p_messages p) | ToolCall i n inp r \<Rightarrow> [])
       (snd (generate_response demo_generator ''What is RAG?'' None (Some demo_tools) (Some demo_tool_manager) 1))
       = [[Str ''What is RAG?''], [],
          [Str ''What is RAG?'', Blocks (content demo_tool_use),
           ToolResults [[(''type'', ''tool_result''), (''tool_use_id'', ''toolu_1''),
                         (''content'', ''[Course A - Lesson 1] text'')]]]]"
proof -
  have ne: "demo_tools \<noteq> []" by (simp add: demo_tools_def)
  have t: "p_tools (api_params_with_tools demo_generator [user_message ''What is RAG?''] SYSTEM_PROMPT demo_tools) \<noteq> None"
    by (simp add: api_params_with_tools_def)
  have s: "stop_reason demo_tool_use = ''tool_use''" by (simp add: demo_tool_use_def)
  have d: "[ModelCall (api_params_with_tools demo_generator [user_message ''What is RAG?''] SYSTEM_PROMPT demo_tools)
         (Inr demo_tool_use),
       ToolCall ''toolu_1'' ''search_course_content'' [(''query'', JStr ''RAG'')]
         (Inr ''[Course A - Lesson 1] text''),
       ModelCall (api_params_no_tools demo_generator
          [user_message ''What is RAG?'',
           \<lparr>role = ''assistant'', m_content = Blocks (content demo_tool_use)\<rparr>,
           \<lparr>role = ''user'', m_content = ToolResults
              [[(''type'', ''tool_result''), (''tool_use_id'', ''toolu_1''),
                (''content'', ''[Course A - Lesson 1] text'')]]\<rparr>] SYSTEM_PROMPT)
         (Inr demo_answer)] = [] @ ModelCall (api_params_with_tools demo_generator [user_message ''What is RAG?''] SYSTEM_PROMPT demo_tools)
         (Inr demo_tool_use) # [
       ToolCall ''toolu_1'' ''search_course_content'' [(''query'', JStr ''RAG'')]
         (Inr ''[Course A - Lesson 1] text''),
       ModelCall (api_params_no_tools demo_generator
          [user_message ''What is RAG?'',
           \<lparr>role = ''assistant'', m_content = Blocks (content demo_tool_use)\<rparr>,
           \<lparr>role = ''user'', m_content = ToolResults
              [[(''type'', ''tool_result''), (''tool_use_id'', ''toolu_1''),
                (''content'', ''[Course A - Lesson 1] text'')]]\<rparr>] SYSTEM_PROMPT)
         (Inr demo_answer)]" by simp
  from tool_use_answered_before_next_call [OF ne demo_run_one_round d t s] ne t s show ?thesis
    by (simp add: demo_run_one_round api_params_with_tools_def api_params_no_tools_def user_message_def
        demo_tool_use_def)
qed

subsection \<open>How a failed dispatch reaches the model\<close>




subsection \<open>The system instruction\<close>



subsection \<open>A round budget that allows no round\<close>

text \<open>
  Claim C9. With a non-empty tool list and a tool manager but \<open>max_rounds \<le> 0\<close>, the
  loop body never runs: the log is one model call, made without tools, and the answer is
  its text, or the string \<^verbatim>\<open>Error generating final response: ...\<close> if that call
  fails.
\<close>

theorem zero_budget_single_call:
  fixes self query h
  defines "p \<equiv> api_params_no_tools self [\<lparr>role = ''user'', m_content = Str query\<rparr>] (system_content_of h)"
  defines "r \<equiv> client self [] p"
  assumes "ts \<noteq> []" and "max_rounds \<le> 0"
  shows "generate_response self query h (Some ts) (Some tm) max_rounds =
            (Inr (or_error ''Error generating final response: '' (response_text r)), [ModelCall p r])
          \<and> p_tools p = None \<and> p_tool_choice p = None
          \<and> (\<forall>resp t bs. r = Inr resp \<and> content resp = TextBlock t # bs \<longrightarrow>
                fst (generate_response self query h (Some ts) (Some tm) max_rounds) = Inr t)
          \<and> (\<forall>e. r = Inl e \<longrightarrow>
                fst (generate_response self query h (Some ts) (Some tm) max_rounds) =
                  Inr (''Error generating final response: '' @ str_exn e))"
proof -
  let ?st = "\<lparr>round_count = 0, chain = [user_message query], log = []\<rparr>"
  have "\<not> round_count ?st < max_rounds" using assms(4) by simp
  then have "while_rounds self tm (system_content_of h) ts max_rounds ?st =
      final_call self (system_content_of h) ?st"
    by (simp add: while_rounds.simps)
  then show ?thesis
    by (auto simp: generate_response_rounds [OF assms(3)] final_call_eq Let_def
        api_params_no_tools_def response_text_def or_error_def p_def r_def user_message_def)
qed

theorem zero_budget_single_call_witness:
  "demo_tools \<noteq> [] \<and> (0::int) \<le> 0 \<and>
   generate_response demo_generator ''What is RAG?'' None (Some demo_tools) (Some demo_tool_manager) 0 =
     (Inr ''An answer.'',
      [ModelCall (api_params_no_tools demo_generator [user_message ''What is RAG?''] SYSTEM_PROMPT)
         (Inr demo_answer)])"
proof -
  have ne: "demo_tools \<noteq> []" by (simp add: demo_tools_def)
  have le: "(0::int) \<le> 0" by simp
  show ?thesis
    using ne zero_budget_single_call [OF ne le, of demo_generator "''What is RAG?''" None demo_tool_manager]
    by (simp add: demo_generator_def demo_answer_def api_params_no_tools_def user_message_def
        response_text_def or_error_def system_content_of_def)
qed

subsection \<open>The chain across tool execution\<close>

text \<open>
  Claim C10. \<^verbatim>\<open>_handle_tool_execution_sequential\<close> leaves the messages already in the
  chain as they were and appends, right after them, an assistant message whose content is
  all of the content blocks of the response, in order, text blocks included; what follows
  it is nothing or one user message of tool results.
\<close>

theorem tool_execution_keeps_chain:
  fixes tm resp messages tr
  defines "chain' \<equiv> fst (fst (handle_tool_execution_sequential tm resp messages tr))"
  shows "take (length messages) chain' = messages
   \<and> chain' ! length messages = \<lparr>role = ''assistant'', m_content = Blocks (content resp)\<rparr>
   \<and> (\<exists>rest. chain' = messages @ \<lparr>role = ''assistant'', m_content = Blocks (content resp)\<rparr> # rest
         \<and> (rest = [] \<or> (\<exists>results. rest = [\<lparr>role = ''user'', m_content = ToolResults results\<rparr>])))"
  by (simp add: chain'_def handle_tool_execution_sequential_events Let_def nth_append)

end
